theory Spec2Isabelle
  imports Complex_Main
begin

section \<open>Exceptions and programs with effects\<close>

text \<open>
  The exceptions of the bot, by the class an \<open>except\<close> clause tests. The first five
  are the classes named in the first handler of \<open>check_inbox\<close>; every other constructor
  is caught only by \<open>except Exception\<close>. \<open>OtherError\<close> stands for any further subclass
  of \<open>Exception\<close> (database errors, \<open>KeyError\<close>, ...) and \<open>Exception\<close> for a plain
  \<open>raise Exception(...)\<close>; message texts are not modelled. \<open>KeyboardInterrupt\<close> and
  \<open>SystemExit\<close>, which are no subclasses of \<open>Exception\<close>, are outside the model.
\<close>

datatype exn =
    HTTPError | ConnectionError | Timeout | RateLimitExceeded | socket_timeout
  | UnboundLocalError | TypeError | Exception | OtherError string

text \<open>
  A statement of the program run in a state \<open>'s\<close>: it returns the state it leaves
  behind, with either a value or the exception it raised.
\<close>

type_synonym ('a, 's) prog = "'s \<Rightarrow> (exn + 'a) \<times> 's"

definition ret :: "'a \<Rightarrow> ('a, 's) prog" where
  "ret x = (\<lambda>s. (Inr x, s))"

definition raise :: "exn \<Rightarrow> ('a, 's) prog" where
  "raise e = (\<lambda>s. (Inl e, s))"

definition bnd :: "('a, 's) prog \<Rightarrow> ('a \<Rightarrow> ('b, 's) prog) \<Rightarrow> ('b, 's) prog" where
  "bnd p f = (\<lambda>s. case p s of (Inl e, s') \<Rightarrow> (Inl e, s') | (Inr x, s') \<Rightarrow> f x s')"

definition try_except :: "('a, 's) prog \<Rightarrow> (exn \<Rightarrow> ('a, 's) prog) \<Rightarrow> ('a, 's) prog" where
  "try_except p h = (\<lambda>s. case p s of (Inl e, s') \<Rightarrow> h e s' | (Inr x, s') \<Rightarrow> (Inr x, s'))"

text \<open>A \<open>for\<close> loop over a list whose body may raise: the first exception ends the loop.\<close>

fun for_each :: "'a list \<Rightarrow> ('a \<Rightarrow> (unit, 's) prog) \<Rightarrow> (unit, 's) prog" where
  "for_each [] body = ret ()"
| "for_each (x # xs) body = bnd (body x) (\<lambda>_. for_each xs body)"

section \<open>Python strings and values\<close>

text \<open>
  Strings are lists of characters. \<open>str.lower\<close> is modelled on ASCII letters (user names
  and column names of the bot are ASCII); other characters are left as they are.
\<close>

definition lower_char :: "char \<Rightarrow> char" where
  "lower_char c =
     (case map_of (zip ''ABCDEFGHIJKLMNOPQRSTUVWXYZ'' ''abcdefghijklmnopqrstuvwxyz'') c of
        Some d \<Rightarrow> d | None \<Rightarrow> c)"

definition lower :: "string \<Rightarrow> string" where
  "lower s = map lower_char s"

text \<open>\<open>s.find(sub)\<close>: the least index at which \<open>sub\<close> occurs in \<open>s\<close>, or \<open>-1\<close>.\<close>

fun str_find :: "string \<Rightarrow> string \<Rightarrow> int" where
  "str_find [] sub = (if sub = [] then 0 else -1)"
| "str_find (c # s) sub =
     (if take (length sub) (c # s) = sub then 0
      else (let r = str_find s sub in if r < 0 then -1 else r + 1))"

text \<open>\<open>sep.join(xs)\<close> on strings.\<close>

fun join :: "string \<Rightarrow> string list \<Rightarrow> string" where
  "join sep [] = []"
| "join sep [x] = x"
| "join sep (x # y # ys) = x @ sep @ join sep (y # ys)"

text \<open>\<open>str(n)\<close> for an integer.\<close>

fun str_nat :: "nat \<Rightarrow> string" where
  "str_nat n =
     (if n < 10 then [''0123456789'' ! n]
      else str_nat (n div 10) @ [''0123456789'' ! (n mod 10)])"

declare str_nat.simps [simp del]

definition str_int :: "int \<Rightarrow> string" where
  "str_int i = (if i < 0 then ''-'' @ str_nat (nat (- i)) else str_nat (nat i))"

text \<open>
  The values a database row holds: \<open>None\<close>, a string, an integer or a float. Floats are
  kept abstract (type \<open>'f\<close>); what Python's library does with them is a parameter, see
  \<open>pylib\<close>. The same type serves for what \<open>format_value\<close> returns, since it can return
  \<open>None\<close> and, in the \<open>state\<close> branch, the row value itself.
\<close>

datatype 'f pyval =
    PNone
  | PStr (str_of: string)
  | PInt (int_of: int)
  | PFloat (float_of: 'f)

definition is_str :: "'f pyval \<Rightarrow> bool" where
  "is_str v = (case v of PStr _ \<Rightarrow> True | _ \<Rightarrow> False)"

definition is_float :: "'f pyval \<Rightarrow> bool" where
  "is_float v = (case v of PFloat _ \<Rightarrow> True | _ \<Rightarrow> False)"

text \<open>
  Library functions of Python that the bot calls and that this development does not
  define: float formatting, \<open>re.escape\<close> (whose result depends on the Python version)
  and \<open>time.strftime("%Y-%m-%d", time.localtime(v))\<close>, which depends on the time zone
  of the process and raises for a value that is no number.
\<close>

record 'f pylib =
  float_is_zero :: "'f \<Rightarrow> bool"
  format_5g :: "'f \<Rightarrow> string"
  str_float :: "'f \<Rightarrow> string"
  re_escape :: "string \<Rightarrow> string"
  strftime_localtime :: "'f pyval \<Rightarrow> exn + string"

text \<open>Truth value of a row value, as \<open>not m[k]\<close> tests it.\<close>

definition truthy :: "'f pylib \<Rightarrow> 'f pyval \<Rightarrow> bool" where
  "truthy lib v =
     (case v of PNone \<Rightarrow> False | PStr s \<Rightarrow> s \<noteq> [] | PInt i \<Rightarrow> i \<noteq> 0
              | PFloat x \<Rightarrow> \<not> float_is_zero lib x)"

text \<open>\<open>str(v)\<close>, which is also what \<open>"%s" % v\<close> inserts.\<close>

definition py_str :: "'f pylib \<Rightarrow> 'f pyval \<Rightarrow> string" where
  "py_str lib v =
     (case v of PNone \<Rightarrow> ''None'' | PStr s \<Rightarrow> s | PInt i \<Rightarrow> str_int i
              | PFloat x \<Rightarrow> str_float lib x)"

text \<open>\<open>sep.join(values)\<close> raises \<open>TypeError\<close> when an item is not a string.\<close>

definition py_join :: "string \<Rightarrow> 'f pyval list \<Rightarrow> exn + string" where
  "py_join sep vs =
     (if list_all is_str vs then Inr (join sep (map str_of vs)) else Inl TypeError)"

section \<open>Configuration\<close>

text \<open>
  The entries of \<open>ctb.conf\<close> that the modelled functions read, named by their path.
  \<open>reddit_banned_users\<close> and \<open>reddit_messages_sorry\<close> hold the truth value of the entry,
  which is all the code tests. A configuration is taken to hold every entry; a missing
  key (\<open>KeyError\<close>) is not modelled.
\<close>

text \<open>
  A number of the configuration: an integer, or a float given by its exact value (every
  finite float is a rational).
\<close>

datatype pynum = PyInt int | PyFloat rat

record conf =
  reddit_auth_user :: string
  reddit_banned_users :: bool
  reddit_messages_sorry :: bool
  reddit_scan_batch_limit :: nat
  reddit_stats_subreddit :: string
  reddit_stats_page :: string
  reddit_stats_page_tips :: string
  misc_times_sleep_seconds :: nat
  misc_times_expire_pending_hours :: pynum
  misc_notify_enabled :: bool
  misc_notify_subject :: string
  misc_notify_addr_from :: string
  misc_notify_addr_to :: string
  misc_notify_smtp_host :: string
  misc_notify_smtp_tls :: bool
  misc_notify_smtp_username :: string
  misc_notify_smtp_password :: string
  coin_symbol :: string
  coin_explorer_address :: string
  db_sql_tips_sql_set :: string
  db_sql_tips_sql_list :: string
  db_sql_tips_limit :: int

section \<open>ctb\_stats: formatting a row value\<close>

text \<open>The check mark that stands for the state \<open>completed\<close>, as its UTF-8 bytes.\<close>

definition check_mark :: string where
  "check_mark = [CHR 0xE2, CHR 0x9C, CHR 0x93]"

text \<open>
  \<open>format_value(m, k, username, ctb, compact)\<close>. A row \<open>m\<close> is a function from column
  names to values. The branches are those of the source, in its order; the \<open>type\<close>
  branch has no \<open>return\<close> for a value other than \<open>givetip\<close> (and \<open>withdraw\<close> when
  compact), so control reaches the end of the function and Python returns \<open>None\<close>.
  Slicing a value that is no string (the \<open>addr\<close> branch) raises \<open>TypeError\<close>.
\<close>

definition format_value ::
  "'f pylib \<Rightarrow> conf \<Rightarrow> (string \<Rightarrow> 'f pyval) \<Rightarrow> string \<Rightarrow> string \<Rightarrow> bool \<Rightarrow> exn + 'f pyval"
where
  "format_value lib c m k username compact_flag =
     (if \<not> truthy lib (m k) then Inr (PStr ''-'')
      else if is_float (m k) \<and> str_find k ''coin'' > -1 then
        Inr (PStr (coin_symbol c @ ''&nbsp;'' @ format_5g lib (float_of (m k))))
      else if str_find k ''user'' > -1 \<and> is_str (m k) then
        (if compact_flag then
           Inr (PStr (if lower (str_of (m k)) = lower username
                      then ''**/u/'' @ str_of (m k) @ ''**''
                      else ''/u/'' @ str_of (m k)))
         else
           (let un = (if lower (str_of (m k)) = lower username
                      then ''**'' @ str_of (m k) @ ''**'' else str_of (m k));
                toreturn = ''['' @ un @ ''](/u/'' @ re_escape lib (str_of (m k)) @ '')''
            in Inr (PStr (if lower (str_of (m k)) \<noteq> lower username
                          then toreturn @ ''^[[stats]](/r/'' @ reddit_stats_subreddit c
                               @ ''/wiki/'' @ reddit_stats_page c @ ''_'' @ str_of (m k) @ '')''
                          else toreturn))))
      else if str_find k ''addr'' > -1 then
        (if is_str (m k) then
           (let s = str_of (m k);
                displayaddr = take 6 s @ ''...'' @ drop (length s - 5) s
            in Inr (PStr (''['' @ displayaddr @ '']('' @ coin_explorer_address c @ s @ '')'')))
         else Inl TypeError)
      else if str_find k ''state'' > -1 then
        (if m k = PStr ''completed'' then Inr (PStr check_mark) else Inr (m k))
      else if str_find k ''type'' > -1 then
        (if m k = PStr ''givetip'' then Inr (PStr ''tip'')
         else if compact_flag \<and> m k = PStr ''withdraw'' then Inr (PStr ''w'')
         else Inr PNone)
      else if str_find k ''subreddit'' > -1 then
        Inr (PStr (''/r/'' @ py_str lib (m k)))
      else if str_find k ''link'' > -1 then
        Inr (PStr (''[link]('' @ py_str lib (m k) @ '')''))
      else if str_find k ''utc'' > -1 then
        (case strftime_localtime lib (m k) of
           Inl e \<Rightarrow> Inl e | Inr s \<Rightarrow> Inr (PStr s))
      else Inr (PStr (py_str lib (m k))))"

section \<open>ctb\_stats: the page of all tips\<close>

text \<open>What a query returns: the column names and the rows, in order.\<close>

record 'f resultset =
  rs_keys :: "string list"
  rs_rows :: "(string \<Rightarrow> 'f pyval) list"

text \<open>
  The database and the wiki are outside this repository's sources; \<open>update_tips\<close> is
  modelled over any behaviour of theirs, in any state \<open>'w\<close> of the outside world.
  \<open>wiki_edit subreddit page content reason\<close> is the call
  \<open>praw_call(wiki_page.edit, content=..., reason=...)\<close>.
\<close>

record ('f, 'w) stats_env =
  db_execute :: "string \<Rightarrow> 'f pyval list \<Rightarrow> ('f resultset, 'w) prog"
  wiki_edit :: "string \<Rightarrow> string \<Rightarrow> string \<Rightarrow> string \<Rightarrow> (unit, 'w) prog"

text \<open>The inner loop of \<open>update_tips\<close>: \<open>values.append(format_value(t, k, "", ctb))\<close> for each key.\<close>

fun format_values ::
  "'f pylib \<Rightarrow> conf \<Rightarrow> (string \<Rightarrow> 'f pyval) \<Rightarrow> string list \<Rightarrow> string \<Rightarrow> exn + 'f pyval list"
where
  "format_values lib c t [] username = Inr []"
| "format_values lib c t (k # ks) username =
     (case format_value lib c t k username False of
        Inl e \<Rightarrow> Inl e
      | Inr v \<Rightarrow> (case format_values lib c t ks username of
                    Inl e \<Rightarrow> Inl e | Inr vs \<Rightarrow> Inr (v # vs)))"

text \<open>The outer loop (\<open># Build tips table\<close>): one line per row, appended to \<open>tip_list\<close>.\<close>

fun build_tips_table ::
  "'f pylib \<Rightarrow> conf \<Rightarrow> string list \<Rightarrow> (string \<Rightarrow> 'f pyval) list \<Rightarrow> string \<Rightarrow> exn + string"
where
  "build_tips_table lib c ks [] tip_list = Inr tip_list"
| "build_tips_table lib c ks (t # ts) tip_list =
     (case format_values lib c t ks [] of
        Inl e \<Rightarrow> Inl e
      | Inr vs \<Rightarrow> (case py_join ''|'' vs of
                    Inl e \<Rightarrow> Inl e
                  | Inr line \<Rightarrow> build_tips_table lib c ks ts (tip_list @ line @ ''\<newline>'')))"

text \<open>The text of the page for a result set: header, column line, separator line, rows.\<close>

definition tips_page :: "'f pylib \<Rightarrow> conf \<Rightarrow> 'f resultset \<Rightarrow> exn + string" where
  "tips_page lib c tips =
     build_tips_table lib c (rs_keys tips) (rs_rows tips)
       (''### All Completed Tips\<newline>\<newline>''
        @ join ''|'' (rs_keys tips) @ ''\<newline>''
        @ join ''|'' (replicate (length (rs_keys tips)) '':---'') @ ''\<newline>'')"

definition update_tips :: "('f, 'w) stats_env \<Rightarrow> conf \<Rightarrow> 'f pylib \<Rightarrow> (bool, 'w) prog" where
  "update_tips E c lib =
     bnd (db_execute E (db_sql_tips_sql_set c) []) (\<lambda>_.
     bnd (db_execute E (db_sql_tips_sql_list c) [PInt (db_sql_tips_limit c)]) (\<lambda>tips.
     bnd (\<lambda>w. (tips_page lib c tips, w)) (\<lambda>tip_list.
     bnd (wiki_edit E (reddit_stats_subreddit c) (reddit_stats_page_tips c) tip_list
            ''Update by nyantip bot'') (\<lambda>_.
     ret True))))"

subsection \<open>Example data\<close>

text \<open>A configuration: batch limit 2, sleep of 60 seconds, expiry after 24 hours.\<close>

definition example_conf :: conf where
  "example_conf = \<lparr>
     reddit_auth_user = ''nyantip'', reddit_banned_users = True,
     reddit_messages_sorry = True, reddit_scan_batch_limit = 2,
     reddit_stats_subreddit = ''nyantip'', reddit_stats_page = ''stats'',
     reddit_stats_page_tips = ''tips'', misc_times_sleep_seconds = 60,
     misc_times_expire_pending_hours = PyInt 24, misc_notify_enabled = True,
     misc_notify_subject = ''nyantip'', misc_notify_addr_from = ''bot'',
     misc_notify_addr_to = ''operator'', misc_notify_smtp_host = ''localhost'',
     misc_notify_smtp_tls = False, misc_notify_smtp_username = ''bot'',
     misc_notify_smtp_password = ''secret'', coin_symbol = ''NYAN'',
     coin_explorer_address = ''/address/'', db_sql_tips_sql_set = ''SET'',
     db_sql_tips_sql_list = ''SELECT'', db_sql_tips_limit = 10 \<rparr>"

text \<open>A library in which floats are integers and local time is not available.\<close>

definition example_lib :: "int pylib" where
  "example_lib = \<lparr>
     float_is_zero = (\<lambda>x. x = 0), format_5g = str_int, str_float = str_int,
     re_escape = (\<lambda>s. s), strftime_localtime = (\<lambda>v. Inl TypeError) \<rparr>"

text \<open>A result set of one row, a completed tip of Alice.\<close>

definition example_row :: "string \<Rightarrow> int pyval" where
  "example_row k =
     (if k = ''type'' then PStr ''givetip''
      else if k = ''state'' then PStr ''completed''
      else if k = ''from_user'' then PStr ''Alice''
      else PNone)"

definition example_tips :: "int resultset" where
  "example_tips = \<lparr> rs_keys = [''type'', ''state'', ''from_user''], rs_rows = [example_row] \<rparr>"

text \<open>An outside world that answers every query with the result set above and
  keeps the list of the page texts written.\<close>

definition example_stats_env :: "(int, string list) stats_env" where
  "example_stats_env = \<lparr>
     db_execute = (\<lambda>sql params w. (Inr example_tips, w)),
     wiki_edit = (\<lambda>subreddit page content reason w. (Inr (), w @ [content])) \<rparr>"

section \<open>cointipbot: the world of the bot\<close>

text \<open>
  A message of the inbox, with the attributes \<open>check_inbox\<close> reads. \<open>author\<close> is
  \<open>None\<close> for a message without author and the author's name otherwise.
\<close>

record message =
  msg_id :: string
  author :: "string option"
  was_comment :: bool
  subject :: string
  body :: string

text \<open>
  Effects inside the process: the calls of \<open>time.sleep\<close> and the log records of level
  warning and above (\<open>logger.exception\<close> logs at level error). Records of level debug
  and info are not modelled.
\<close>

datatype loglevel = WARNING | ERROR

datatype event = Slept nat | Logged loglevel

text \<open>
  The state in which the bot runs: \<open>ext\<close> is everything outside the process (the site,
  the database, the coin daemon, the mail server, the clock), of an arbitrary type;
  \<open>events\<close> is the trace of the effects above.
\<close>

record 'w world =
  ext :: 'w
  events :: "event list"

definition outside :: "('a, 'w) prog \<Rightarrow> ('a, 'w world) prog" where
  "outside p = (\<lambda>s. case p (ext s) of (r, x) \<Rightarrow> (r, s\<lparr>ext := x\<rparr>))"

definition sleep :: "nat \<Rightarrow> (unit, 'w world) prog" where
  "sleep n = (\<lambda>s. (Inr (), s\<lparr>events := events s @ [Slept n]\<rparr>))"

definition log :: "loglevel \<Rightarrow> (unit, 'w world) prog" where
  "log l = (\<lambda>s. (Inr (), s\<lparr>events := events s @ [Logged l]\<rparr>))"

text \<open>The mail that \<open>notify\<close> builds, and the calls it makes on \<open>smtplib\<close>.\<close>

record mime =
  mime_text :: exn
  mime_subject :: string
  mime_from :: string
  mime_to :: string

datatype smtp_call =
    SMTP string
  | Starttls
  | Login string string
  | Sendmail string string mime
  | Quit

text \<open>
  The modules \<open>ctb_action\<close>, \<open>ctb_user\<close> and \<open>ctb_misc\<close> and the libraries behind them
  are not among the sources; \<open>cointipbot\<close> is modelled over any behaviour of theirs.
  Each field is one call of the source, acting on the outside world and free to raise:
  \<^item> \<open>get_unread limit\<close>: \<open>list(ctb_misc.praw_call(self.reddit.get_unread, limit=limit))\<close>;
  \<^item> \<open>mark_as_read m\<close>: \<open>ctb_misc.praw_call(m.mark_as_read)\<close>;
  \<^item> \<open>check_action id\<close>: \<open>ctb_action.check_action(msg_id=id, ctb=self)\<close>;
  \<^item> \<open>user_banned name\<close>: \<open>ctb_user.CtbUser(name=name, ...).banned\<close>;
  \<^item> \<open>eval_comment m\<close>, \<open>eval_message m\<close>: the functions of \<open>ctb_action\<close>, returning an
    action (of type \<open>'a\<close>) or \<open>None\<close>;
  \<^item> \<open>action_do a\<close>: \<open>a.do()\<close>;
  \<^item> \<open>render_didnt_understand user_from what m\<close>: rendering \<open>didnt-understand.tpl\<close>,
    with \<open>source_link=ctb_misc.permalink(m)\<close>;
  \<^item> \<open>user_tell name subj msg msgobj\<close>: \<open>CtbUser(name=name, ...).tell(subj, msg, msgobj)\<close>;
  \<^item> \<open>mktime_gmtime\<close>: \<open>time.mktime(time.gmtime())\<close>, in whole seconds;
  \<^item> \<open>get_actions atype state created_before\<close>: \<open>ctb_action.get_actions\<close>, where the
    source's argument \<open>created_utc="< " + str(created_before)\<close> is given as the bound itself
    (\<open>None\<close> when the argument is absent);
  \<^item> \<open>expire a\<close>: \<open>a.expire()\<close>;
  \<^item> \<open>smtp call\<close>: one call on the \<open>smtplib\<close> connection;
  \<^item> \<open>float_mul x y\<close>: the product \<open>x * y\<close> of two floats as Python computes it, that
    is, rounded to a float; it has no effect and does not raise.
\<close>

record ('a, 'w) ctb_env =
  get_unread :: "nat \<Rightarrow> (message list, 'w) prog"
  mark_as_read :: "message \<Rightarrow> (unit, 'w) prog"
  check_action :: "string \<Rightarrow> (bool, 'w) prog"
  user_banned :: "string \<Rightarrow> (bool, 'w) prog"
  eval_comment :: "message \<Rightarrow> ('a option, 'w) prog"
  eval_message :: "message \<Rightarrow> ('a option, 'w) prog"
  action_do :: "'a \<Rightarrow> (unit, 'w) prog"
  render_didnt_understand :: "string \<Rightarrow> string \<Rightarrow> message \<Rightarrow> (string, 'w) prog"
  user_tell :: "string \<Rightarrow> string \<Rightarrow> string \<Rightarrow> message option \<Rightarrow> (unit, 'w) prog"
  mktime_gmtime :: "(int, 'w) prog"
  get_actions :: "string \<Rightarrow> string \<Rightarrow> int option \<Rightarrow> ('a list, 'w) prog"
  expire :: "'a \<Rightarrow> (unit, 'w) prog"
  smtp :: "smtp_call \<Rightarrow> (unit, 'w) prog"
  float_mul :: "rat \<Rightarrow> rat \<Rightarrow> rat"

section \<open>cointipbot: expire\_pending\_tips\<close>

text \<open>\<open>int(x)\<close> on a float: truncation towards zero.\<close>

definition py_int :: "rat \<Rightarrow> int" where
  "py_int q = (if 0 \<le> q then \<lfloor>q\<rfloor> else \<lceil>q\<rceil>)"

text \<open>
  \<open>int(hours * 3600)\<close>: for an integer entry the product is an integer and exact; for
  a float entry the product is a float, rounded by Python before \<open>int\<close> truncates it.
  Infinities and NaN, for which \<open>int\<close> raises, are no rationals and are not modelled.
\<close>

definition seconds_of_hours :: "('a, 'w) ctb_env \<Rightarrow> pynum \<Rightarrow> int" where
  "seconds_of_hours C hours =
     (case hours of
        PyInt h \<Rightarrow> h * 3600
      | PyFloat x \<Rightarrow> py_int (float_mul C x 3600))"

text \<open>
  \<open>expire_pending_tips\<close>. The result is \<open>counter > 0\<close>, and the counter is the number
  of actions the loop went through.
\<close>

definition expire_pending_tips :: "('a, 'w) ctb_env \<Rightarrow> conf \<Rightarrow> (bool, 'w world) prog" where
  "expire_pending_tips C c =
     (let seconds = seconds_of_hours C (misc_times_expire_pending_hours c) in
      bnd (outside (mktime_gmtime C)) (\<lambda>now.
      let created_before = now - seconds in
      bnd (outside (get_actions C ''givetip'' ''pending'' (Some created_before))) (\<lambda>actions.
      bnd (for_each actions (\<lambda>a. outside (expire C a))) (\<lambda>_.
      ret (length actions > 0)))))"

section \<open>cointipbot: check\_inbox\<close>

text \<open>The classes of the first \<open>except\<close> clause of \<open>check_inbox\<close>.\<close>

definition transient :: "exn \<Rightarrow> bool" where
  "transient e = (e \<in> set [HTTPError, ConnectionError, Timeout, RateLimitExceeded, socket_timeout])"

text \<open>
  The body of the loop \<open>for m in messages\<close>. A \<open>continue\<close> ends the body, so each skip
  is a branch that only marks the message as read.
\<close>

definition process_message :: "('a, 'w) ctb_env \<Rightarrow> conf \<Rightarrow> message \<Rightarrow> (unit, 'w world) prog" where
  "process_message C c m =
     (case author m of
        None \<Rightarrow> outside (mark_as_read C m)
      | Some name \<Rightarrow>
          bnd (outside (check_action C (msg_id m))) (\<lambda>duplicate.
          if duplicate then
            bnd (log WARNING) (\<lambda>_. outside (mark_as_read C m))
          else if lower name = lower (reddit_auth_user c) then
            outside (mark_as_read C m)
          else
            bnd (if reddit_banned_users c then outside (user_banned C name) else ret False)
              (\<lambda>banned.
            if banned then outside (mark_as_read C m)
            else
              bnd (if was_comment m then outside (eval_comment C m)
                   else outside (eval_message C m)) (\<lambda>action.
              bnd (case action of
                     Some a \<Rightarrow> outside (action_do C a)
                   | None \<Rightarrow>
                       if reddit_messages_sorry c
                          \<and> subject m \<notin> set [''post reply'', ''comment reply'']
                       then
                         bnd (outside (render_didnt_understand C name
                                (if was_comment m then ''comment'' else ''message'') m)) (\<lambda>msg.
                         outside (user_tell C name ''What?'' msg
                                    (if \<not> was_comment m then Some m else None)))
                       else ret ()) (\<lambda>_.
              outside (mark_as_read C m))))))"

text \<open>The body of the \<open>try\<close> statement: fetch, reverse, loop.\<close>

definition fetch_and_process :: "('a, 'w) ctb_env \<Rightarrow> conf \<Rightarrow> (unit, 'w world) prog" where
  "fetch_and_process C c =
     bnd (outside (get_unread C (reddit_scan_batch_limit c))) (\<lambda>messages.
     for_each (rev messages) (process_message C c))"

text \<open>
  \<open>check_inbox\<close>: the first handler logs a warning and sleeps; the second one logs the
  exception and, its \<open>raise\<close> being commented out, ends there. Either way the function
  goes on to \<open>return True\<close>.
\<close>

definition check_inbox :: "('a, 'w) ctb_env \<Rightarrow> conf \<Rightarrow> (bool, 'w world) prog" where
  "check_inbox C c =
     bnd (try_except (fetch_and_process C c)
            (\<lambda>e. if transient e
                 then bnd (log WARNING) (\<lambda>_. sleep (misc_times_sleep_seconds c))
                 else log ERROR)) (\<lambda>_.
     ret True)"

section \<open>cointipbot: notify and main\<close>

definition notify :: "('a, 'w) ctb_env \<Rightarrow> conf \<Rightarrow> exn \<Rightarrow> (unit, 'w world) prog" where
  "notify C c tb =
     (let msg = \<lparr> mime_text = tb, mime_subject = misc_notify_subject c,
                  mime_from = misc_notify_addr_from c, mime_to = misc_notify_addr_to c \<rparr> in
      bnd (outside (smtp C (SMTP (misc_notify_smtp_host c)))) (\<lambda>_.
      bnd (if misc_notify_smtp_tls c then outside (smtp C Starttls) else ret ()) (\<lambda>_.
      bnd (outside (smtp C (Login (misc_notify_smtp_username c) (misc_notify_smtp_password c))))
        (\<lambda>_.
      bnd (outside (smtp C (Sendmail (misc_notify_addr_from c) (misc_notify_addr_to c) msg)))
        (\<lambda>_.
      outside (smtp C Quit))))))"

text \<open>
  How one pass of the \<open>while True\<close> loop of \<open>main\<close> ends: the loop goes on, or the
  handler reaches \<open>sys.exit(1)\<close>, or the handler itself raises (in \<open>notify\<close>) and the
  exception leaves \<open>main\<close> uncaught.
\<close>

datatype outcome = Continue | Exit int | Uncaught exn

definition main_iteration :: "('a, 'w) ctb_env \<Rightarrow> conf \<Rightarrow> 'w world \<Rightarrow> outcome \<times> 'w world" where
  "main_iteration C c s =
     (case bnd (expire_pending_tips C c) (\<lambda>_.
           bnd (check_inbox C c) (\<lambda>_.
           sleep (misc_times_sleep_seconds c))) s of
        (Inr _, s') \<Rightarrow> (Continue, s')
      | (Inl e, s') \<Rightarrow>
          (case bnd (log ERROR) (\<lambda>_.
                bnd (log ERROR) (\<lambda>_.
                if misc_notify_enabled c then notify C c e else ret ())) s' of
             (Inr _, s'') \<Rightarrow> (Exit 1, s'')
           | (Inl e', s'') \<Rightarrow> (Uncaught e', s'')))"

text \<open>
  \<open>main\<close>, the loop that never ends by itself, run for at most \<open>n\<close> passes: \<open>None\<close>
  says that the loop is still running after them.
\<close>

fun main :: "nat \<Rightarrow> ('a, 'w) ctb_env \<Rightarrow> conf \<Rightarrow> 'w world \<Rightarrow> outcome option \<times> 'w world" where
  "main 0 C c s = (None, s)"
| "main (Suc n) C c s =
     (case main_iteration C c s of
        (Continue, s') \<Rightarrow> main n C c s'
      | (out, s') \<Rightarrow> (Some out, s'))"

section \<open>cointipbot: self\_checks\<close>

text \<open>
  What \<open>self_checks\<close> calls: \<open>CtbUser(name).is_registered()\<close>, \<open>.register()\<close> and
  \<open>.get_balance(kind)\<close>, \<open>ctb_action.get_actions(atype, state)\<close>, the attribute
  \<open>coinval\<close> of an action, \<open>float(self.coin.conn.getbalance())\<close> and the user names
  that the query on \<open>t_users\<close> returns. Amounts are Python floats in the source and
  rationals here; no statement below depends on their arithmetic.
\<close>

record ('a, 'w) startup_env =
  is_registered :: "string \<Rightarrow> (bool, 'w) prog"
  register :: "string \<Rightarrow> (unit, 'w) prog"
  get_balance :: "string \<Rightarrow> string \<Rightarrow> (rat, 'w) prog"
  pending_actions :: "string \<Rightarrow> string \<Rightarrow> ('a list, 'w) prog"
  coinval :: "'a \<Rightarrow> rat"
  coin_getbalance :: "(rat, 'w) prog"
  db_usernames :: "(string list, 'w) prog"

text \<open>
  \<open>self_checks\<close>. The name \<open>user\<close> is assigned further down in the function (in the
  loop over the users), which makes it a local variable of the whole function; where
  the balance of the bot is read, \<open>user.get_balance(kind="givetip")\<close>, it has no value
  yet, and reading it raises \<open>UnboundLocalError\<close>. The local is modelled as an option
  that is \<open>None\<close> until the assignment; the bot's own user is \<open>b\<close>.
\<close>

definition self_checks :: "('a, 'w) startup_env \<Rightarrow> conf \<Rightarrow> (bool, 'w) prog" where
  "self_checks S c =
     (let b = lower (reddit_auth_user c);
          user = (None :: string option) in
      bnd (is_registered S b) (\<lambda>registered.
      bnd (if \<not> registered then register S b else ret ()) (\<lambda>_.
      bnd (case user of
             None \<Rightarrow> raise UnboundLocalError
           | Some u \<Rightarrow> get_balance S u ''givetip'') (\<lambda>ctb_balance.
      bnd (pending_actions S ''givetip'' ''pending'') (\<lambda>actions.
      let pending_tips = foldl (\<lambda>total a. total + coinval S a) 0 actions in
      if ctb_balance - pending_tips < - (1 / 1000000) then raise Exception
      else
        bnd (coin_getbalance S) (\<lambda>balance.
        if balance < 0 then raise Exception
        else
          bnd (db_usernames S) (\<lambda>rows.
          bnd (for_each rows (\<lambda>username.
                 bnd (is_registered S username) (\<lambda>ok.
                 if \<not> ok then raise Exception
                 else
                   bnd (get_balance S username ''givetip'') (\<lambda>bal.
                   if bal < 0 then raise Exception else ret ())))) (\<lambda>_.
          ret True))))))))"

text \<open>A start-up world for examples: the bot is registered and holds 10 coins, no tip
  is pending, the coin daemon holds 10 coins, and there is no other user.\<close>

definition example_startup_env :: "(unit, unit) startup_env" where
  "example_startup_env = \<lparr>
     is_registered = (\<lambda>name. ret True),
     register = (\<lambda>name. ret ()),
     get_balance = (\<lambda>name kind. ret 10),
     pending_actions = (\<lambda>atype state. ret []),
     coinval = (\<lambda>a. 0),
     coin_getbalance = ret 10,
     db_usernames = ret [] \<rparr>"

section \<open>The ledger and the message source, from the specification\<close>

text \<open>
  The action of the specification's data model: id, type, source message id, sender,
  recipient, amount, state and creation time.
\<close>

record action =
  a_id :: nat
  a_type :: string
  a_source_message_id :: string
  a_from_user :: string
  a_to_user :: "string option"
  a_amount :: "rat option"
  a_state :: string
  a_created_at :: int

text \<open>
  A concrete outside world: the persisted actions and balances, the unread messages
  (newest first), the ids of the messages marked as read (in the order of the calls),
  the replies sent (recipient, subject, text), the clock and the calls on the mail
  server.
\<close>

record ledger =
  actions :: "action list"
  balances :: "(string \<times> rat) list"
  inbox :: "message list"
  read_log :: "string list"
  outbox :: "(string \<times> string \<times> string) list"
  clock :: int
  mails :: "smtp_call list"

text \<open>
  Modelled from the spec: \<open>ctb_action.check_action\<close> is not among the sources. It is
  the ledger's \<open>exists(source_message_id)\<close>: has this message already produced an
  action.
\<close>

definition ledger_exists :: "string \<Rightarrow> ledger \<Rightarrow> bool" where
  "ledger_exists i L = list_ex (\<lambda>a. a_source_message_id a = i) (actions L)"

text \<open>
  Modelled from the spec: the persistence of an action is not among the sources. It is
  the ledger's \<open>create(action)\<close>: the action is inserted; actions are never deleted.
\<close>

definition ledger_create :: "action \<Rightarrow> ledger \<Rightarrow> ledger" where
  "ledger_create a L = L\<lparr>actions := actions L @ [a]\<rparr>"

text \<open>
  Modelled from the spec: \<open>ctb_action.get_actions\<close> is not among the sources. It is
  the ledger's \<open>list(type, state, created_before=None)\<close>: the actions of that type and
  state, created strictly before the bound when one is given.
\<close>

definition ledger_list :: "string \<Rightarrow> string \<Rightarrow> int option \<Rightarrow> ledger \<Rightarrow> action list" where
  "ledger_list atype st created_before L =
     filter (\<lambda>a. a_type a = atype \<and> a_state a = st
                \<and> (case created_before of None \<Rightarrow> True | Some t \<Rightarrow> a_created_at a < t))
       (actions L)"

text \<open>
  Modelled from the spec: the state change of an action (\<open>expire\<close> of \<open>ctb_action\<close>)
  is not among the sources. It is the ledger's \<open>transition(action_id, new_state)\<close>: one
  update of the state of that action, which fails with \<open>InvalidStateTransition\<close> when
  the action is already terminal (not \<open>pending\<close>) or does not exist; balances are not
  touched.
\<close>

definition ledger_transition :: "nat \<Rightarrow> string \<Rightarrow> (unit, ledger) prog" where
  "ledger_transition i new_state L =
     (case find (\<lambda>a. a_id a = i) (actions L) of
        None \<Rightarrow> (Inl (OtherError ''InvalidStateTransition''), L)
      | Some a \<Rightarrow>
          if a_state a \<noteq> ''pending'' then (Inl (OtherError ''InvalidStateTransition''), L)
          else (Inr (), L\<lparr>actions :=
                  map (\<lambda>b. if a_id b = i then b\<lparr>a_state := new_state\<rparr> else b) (actions L)\<rparr>))"

text \<open>
  Modelled from the spec: \<open>ctb_action.eval_comment\<close> and \<open>eval_message\<close> are not among
  the sources. Parsing is pure; the patterns are configuration, so the parser is a
  parameter \<open>parse\<close>. The action found belongs to the message it was parsed from.
\<close>

definition ledger_eval :: "(message \<Rightarrow> action option) \<Rightarrow> message \<Rightarrow> (action option, ledger) prog" where
  "ledger_eval parse m L =
     (Inr (map_option (\<lambda>a. a\<lparr>a_source_message_id := msg_id m, a_created_at := clock L\<rparr>)
             (parse m)), L)"

text \<open>
  Modelled from the spec: \<open>do\<close> of \<open>ctb_action\<close> is not among the sources. It is the
  executor: the action is persisted under a fresh id in the state the execution leaves
  it in, together with the balances the execution leaves. What an execution decides
  (validation, amounts, fees) is a parameter \<open>execute\<close>, which returns that state and
  those balances.
\<close>

definition ledger_do ::
  "(action \<Rightarrow> ledger \<Rightarrow> string \<times> (string \<times> rat) list) \<Rightarrow> action \<Rightarrow> (unit, ledger) prog"
where
  "ledger_do execute a L =
     (Inr (), ledger_create (a\<lparr>a_id := length (actions L), a_state := fst (execute a L)\<rparr>)
                (L\<lparr>balances := snd (execute a L)\<rparr>))"

text \<open>
  Modelled from the spec: the message source is outside the sources.
  \<open>fetch_unread(limit)\<close> returns up to \<open>limit\<close> unread messages, in the order of the
  inbox; \<open>mark_read\<close> takes the message out of the unread ones; \<open>reply\<close> sends a text.
  The other fields are the ledger functions above, the clock, the list of banned users
  (a parameter), a mail server that accepts every call and Python's float product (a
  parameter \<open>fmul\<close>). No call raises.
\<close>

definition ledger_env ::
  "(message \<Rightarrow> action option) \<Rightarrow> (action \<Rightarrow> ledger \<Rightarrow> string \<times> (string \<times> rat) list)
     \<Rightarrow> string list \<Rightarrow> (rat \<Rightarrow> rat \<Rightarrow> rat) \<Rightarrow> (action, ledger) ctb_env"
where
  "ledger_env parse execute banned fmul = \<lparr>
     get_unread = (\<lambda>limit L. (Inr (take limit (inbox L)), L)),
     mark_as_read = (\<lambda>m L. (Inr (), L\<lparr>inbox := filter (\<lambda>x. msg_id x \<noteq> msg_id m) (inbox L),
                                        read_log := read_log L @ [msg_id m]\<rparr>)),
     check_action = (\<lambda>i L. (Inr (ledger_exists i L), L)),
     user_banned = (\<lambda>name L. (Inr (name \<in> set banned), L)),
     eval_comment = ledger_eval parse,
     eval_message = ledger_eval parse,
     action_do = ledger_do execute,
     render_didnt_understand = (\<lambda>user_from what m L. (Inr (''Sorry '' @ user_from), L)),
     user_tell = (\<lambda>name subj msg msgobj L. (Inr (), L\<lparr>outbox := outbox L @ [(name, subj, msg)]\<rparr>)),
     mktime_gmtime = (\<lambda>L. (Inr (clock L), L)),
     get_actions = (\<lambda>atype st created_before L. (Inr (ledger_list atype st created_before L), L)),
     expire = (\<lambda>a. ledger_transition (a_id a) ''expired''),
     smtp = (\<lambda>call L. (Inr (), L\<lparr>mails := mails L @ [call]\<rparr>)),
     float_mul = fmul \<rparr>"

subsection \<open>Example data\<close>

definition example_tip :: action where
  "example_tip = \<lparr> a_id = 0, a_type = ''givetip'', a_source_message_id = []
     , a_from_user = ''alice'', a_to_user = Some ''bob'', a_amount = Some 5
     , a_state = ''pending'', a_created_at = 0 \<rparr>"

text \<open>A parser that finds a tip in a message whose body starts with \<open>+tip\<close>.\<close>

definition example_parse :: "message \<Rightarrow> action option" where
  "example_parse m = (if take 4 (body m) = ''+tip'' then Some example_tip else None)"

text \<open>An executor that completes every action and leaves the balances alone.\<close>

definition example_execute :: "action \<Rightarrow> ledger \<Rightarrow> string \<times> (string \<times> rat) list" where
  "example_execute a L = (''completed'', balances L)"

text \<open>
  The float product on the example data: \<open>0.015 * 3600\<close> is \<open>54.0\<close> in Python (the
  exact product of the float \<open>0.015\<close>, which lies just below 54, rounded to the nearest
  float); every other product is taken exact.
\<close>

definition float_0_015 :: rat where
  "float_0_015 = 1080863910568919 / 72057594037927936"

definition example_float_mul :: "rat \<Rightarrow> rat \<Rightarrow> rat" where
  "example_float_mul x y = (if x = float_0_015 \<and> y = 3600 then 54 else x * y)"

definition example_env :: "(action, ledger) ctb_env" where
  "example_env = ledger_env example_parse example_execute [''mallory''] example_float_mul"

definition msg_tip :: message where
  "msg_tip = \<lparr> msg_id = ''t1'', author = Some ''alice'', was_comment = True
     , subject = ''username mention'', body = ''+tip bob 5'' \<rparr>"

definition msg_hello :: message where
  "msg_hello = \<lparr> msg_id = ''t2'', author = Some ''carol'', was_comment = False
     , subject = ''hello'', body = ''hi there'' \<rparr>"

definition msg_banned :: message where
  "msg_banned = \<lparr> msg_id = ''t3'', author = Some ''mallory'', was_comment = False
     , subject = ''tip'', body = ''+tip bob 1'' \<rparr>"

text \<open>A ledger at time \<open>100000\<close> with an old pending tip, a recent pending tip, an old
  completed tip and an old pending withdrawal.\<close>

definition example_ledger :: ledger where
  "example_ledger = \<lparr>
     actions =
       [example_tip\<lparr>a_id := 0, a_source_message_id := ''m0'', a_created_at := 10\<rparr>,
        example_tip\<lparr>a_id := 1, a_source_message_id := ''m1'', a_created_at := 99000\<rparr>,
        example_tip\<lparr>a_id := 2, a_source_message_id := ''m2'', a_created_at := 10,
                    a_state := ''completed''\<rparr>,
        example_tip\<lparr>a_id := 3, a_source_message_id := ''m3'', a_created_at := 10,
                    a_type := ''withdraw''\<rparr>],
     balances = [(''alice'', 20), (''bob'', 0)],
     inbox = [msg_banned, msg_hello, msg_tip],
     read_log = [],
     outbox = [],
     clock = 100000,
     mails = [] \<rparr>"

definition example_world :: "ledger world" where
  "example_world = \<lparr> ext = example_ledger, events = [] \<rparr>"

text \<open>A ledger at time \<open>100000\<close> with two pending tips, created 54 and 55 seconds
  before.\<close>

definition boundary_world :: "ledger world" where
  "boundary_world = \<lparr>
     ext = example_ledger\<lparr>actions :=
       [example_tip\<lparr>a_id := 0, a_source_message_id := ''m0'', a_created_at := 99946\<rparr>,
        example_tip\<lparr>a_id := 1, a_source_message_id := ''m1'', a_created_at := 99945\<rparr>]\<rparr>,
     events = [] \<rparr>"

text \<open>Worlds in which a call raises: fetching the inbox, or listing the actions.\<close>

definition failing_fetch_env :: "exn \<Rightarrow> (action, ledger) ctb_env" where
  "failing_fetch_env e = example_env\<lparr>get_unread := (\<lambda>limit. raise e)\<rparr>"

definition failing_sweep_env :: "exn \<Rightarrow> (action, ledger) ctb_env" where
  "failing_sweep_env e = example_env\<lparr>get_actions := (\<lambda>atype st created_before. raise e)\<rparr>"

section \<open>Running a program step by step\<close>

lemma bnd_Inr: "p s = (Inr x, s') \<Longrightarrow> bnd p f s = f x s'"
  by (simp add: bnd_def)

lemma bnd_Inl: "p s = (Inl e, s') \<Longrightarrow> bnd p f s = (Inl e, s')"
  by (simp add: bnd_def)

lemma bnd_ret: "bnd (ret x) f = f x"
  by (simp add: bnd_def ret_def)

lemma bnd_raise: "bnd (raise e) f = raise e"
  by (simp add: bnd_def raise_def)

lemma outside_eq: "p (ext s) = (r, x) \<Longrightarrow> outside p s = (r, s\<lparr>ext := x\<rparr>)"
  by (simp add: outside_def)

section \<open>Properties of ctb\_stats\<close>

text \<open>
  C10. When the key contains \<open>type\<close>, no earlier branch applies (not a float under a
  \<open>coin\<close> key, not a string under a \<open>user\<close> key, no \<open>addr\<close> and no \<open>state\<close> in the key),
  the value is truthy, is not \<open>givetip\<close>, and either \<open>compact\<close> is false or the value is
  not \<open>withdraw\<close>, then \<open>format_value\<close> returns \<open>None\<close> and not a string.
\<close>

theorem format_value_type_returns_None:
  assumes "str_find k ''type'' > -1"
    and "\<not> (is_float (m k) \<and> str_find k ''coin'' > -1)"
    and "\<not> (str_find k ''user'' > -1 \<and> is_str (m k))"
    and "\<not> str_find k ''addr'' > -1"
    and "\<not> str_find k ''state'' > -1"
    and "truthy lib (m k)"
    and "m k \<noteq> PStr ''givetip''"
    and "\<not> compact_flag \<or> m k \<noteq> PStr ''withdraw''"
  shows "format_value lib c m k username compact_flag = Inr PNone"
  using assms unfolding format_value_def by auto

text \<open>The type \<open>register\<close> under the key \<open>type\<close>, not compact: the result is \<open>None\<close>.\<close>

theorem format_value_type_returns_None_witness:
  "format_value example_lib example_conf (\<lambda>k. PStr ''register'') ''type'' [] False = Inr PNone"
  using format_value_type_returns_None
          [of "''type''" "\<lambda>k. PStr ''register''" example_lib False example_conf "[]"]
  by (simp add: is_float_def is_str_def truthy_def)

lemma format_value_row:
  assumes "m' k = m k"
  shows "format_value lib c m' k username compact_flag
           = format_value lib c m k username compact_flag"
  unfolding format_value_def assms by (rule refl)

lemma update_tips_run:
  assumes "db_execute E (db_sql_tips_sql_set c) [] w = (Inr x, w1)"
    and "db_execute E (db_sql_tips_sql_list c) [PInt (db_sql_tips_limit c)] w1 = (Inr tips, w2)"
  shows "update_tips E c lib w =
     (case tips_page lib c tips of
        Inl e \<Rightarrow> (Inl e, w2)
      | Inr content \<Rightarrow>
          bnd (wiki_edit E (reddit_stats_subreddit c) (reddit_stats_page_tips c) content
                 ''Update by nyantip bot'') (\<lambda>_. ret True) w2)"
  using assms by (simp add: update_tips_def bnd_def split: sum.splits)

text \<open>
  C9. Formatting is a function of its inputs alone. \<open>format_value\<close> depends on the row
  only through the value \<open>m[k]\<close>; and for given configuration, library and query result
  there is one outcome \<open>r\<close> of the rendering (a page text, or the exception the rendering
  raises) such that every run of \<open>update_tips\<close> whose queries return that result, in any
  outside world and whatever state it is in, submits exactly that text (or raises that
  exception). So regenerating the page from unchanged query results yields the same rows.
\<close>

theorem update_tips_regeneration_stable:
  "(\<forall>m'. m' k = m k \<longrightarrow>
      format_value lib c m' k username compact_flag = format_value lib c m k username compact_flag)
   \<and> (\<exists>r. \<forall>(E :: ('f, 'w) stats_env) w x w1 w2.
         db_execute E (db_sql_tips_sql_set c) [] w = (Inr x, w1) \<longrightarrow>
         db_execute E (db_sql_tips_sql_list c) [PInt (db_sql_tips_limit c)] w1 = (Inr tips, w2) \<longrightarrow>
         update_tips E c lib w =
           (case r of
              Inl e \<Rightarrow> (Inl e, w2)
            | Inr content \<Rightarrow>
                bnd (wiki_edit E (reddit_stats_subreddit c) (reddit_stats_page_tips c) content
                       ''Update by nyantip bot'') (\<lambda>_. ret True) w2))"
proof
  show "\<forall>m'. m' k = m k \<longrightarrow>
      format_value lib c m' k username compact_flag = format_value lib c m k username compact_flag"
    by (intro allI impI) (rule format_value_row)
next
  show "\<exists>r. \<forall>(E :: ('f, 'w) stats_env) w x w1 w2.
         db_execute E (db_sql_tips_sql_set c) [] w = (Inr x, w1) \<longrightarrow>
         db_execute E (db_sql_tips_sql_list c) [PInt (db_sql_tips_limit c)] w1 = (Inr tips, w2) \<longrightarrow>
         update_tips E c lib w =
           (case r of
              Inl e \<Rightarrow> (Inl e, w2)
            | Inr content \<Rightarrow>
                bnd (wiki_edit E (reddit_stats_subreddit c) (reddit_stats_page_tips c) content
                       ''Update by nyantip bot'') (\<lambda>_. ret True) w2)"
    by (rule exI [of _ "tips_page lib c tips"]) (simp add: update_tips_run)
qed

text \<open>Two regenerations, one on an empty wiki and one after an earlier edit, write the
  same page.\<close>

theorem update_tips_regeneration_stable_witness:
  "\<exists>r. update_tips example_stats_env example_conf example_lib []
          = (case r of Inl e \<Rightarrow> (Inl e, []) | Inr content \<Rightarrow> (Inr True, [content]))
      \<and> update_tips example_stats_env example_conf example_lib [''old'']
          = (case r of Inl e \<Rightarrow> (Inl e, [''old''])
                     | Inr content \<Rightarrow> (Inr True, [''old'', content]))"
proof -
  from conjunct2 [OF update_tips_regeneration_stable
         [of "''type''" example_row example_lib example_conf "[]" False example_tips,
          where ?'w = "string list"]]
  obtain r where r: "\<forall>(E :: (int, string list) stats_env) w x w1 w2.
         db_execute E (db_sql_tips_sql_set example_conf) [] w = (Inr x, w1) \<longrightarrow>
         db_execute E (db_sql_tips_sql_list example_conf)
            [PInt (db_sql_tips_limit example_conf)] w1 = (Inr example_tips, w2) \<longrightarrow>
         update_tips E example_conf example_lib w =
           (case r of
              Inl e \<Rightarrow> (Inl e, w2)
            | Inr content \<Rightarrow>
                bnd (wiki_edit E (reddit_stats_subreddit example_conf)
                       (reddit_stats_page_tips example_conf) content
                       ''Update by nyantip bot'') (\<lambda>_. ret True) w2)"
    by blast
  have q: "db_execute example_stats_env sql params w = (Inr example_tips, w)" for sql params w
    by (simp add: example_stats_env_def)
  have a: "update_tips example_stats_env example_conf example_lib []
          = (case r of Inl e \<Rightarrow> (Inl e, []) | Inr content \<Rightarrow> (Inr True, [content]))"
    using r [rule_format, OF q q, of "[]"]
    by (simp add: example_stats_env_def bnd_def ret_def split: sum.splits)
  have b: "update_tips example_stats_env example_conf example_lib [''old'']
          = (case r of Inl e \<Rightarrow> (Inl e, [''old''])
                     | Inr content \<Rightarrow> (Inr True, [''old'', content]))"
    using r [rule_format, OF q q, of "[''old'']"]
    by (simp add: example_stats_env_def bnd_def ret_def split: sum.splits)
  from a b show ?thesis by blast
qed

section \<open>Properties of self\_checks\<close>

lemma self_checks_never_returns_True: "fst (self_checks S c w) \<noteq> Inr True"
  by (simp add: self_checks_def Let_def bnd_def raise_def ret_def split: prod.splits sum.splits)

lemma self_checks_after_registration:
  assumes "is_registered S (lower (reddit_auth_user c)) w = (Inr r, w1)"
    and "(if \<not> r then register S (lower (reddit_auth_user c)) else ret ()) w1 = (Inr u, w2)"
  shows "self_checks S c w = (Inl UnboundLocalError, w2)"
  using assms by (simp add: self_checks_def Let_def bnd_def raise_def)

text \<open>
  C6. The bot is registered and holds 10 coins, no tip is pending, the coin daemon holds
  10 coins and there is no other user: the balance does not fall short of the pending
  tips, and every later check would pass. \<open>self_checks\<close> does not return \<open>True\<close>: it
  raises \<open>UnboundLocalError\<close> where it reads the balance through the local \<open>user\<close>,
  before any comparison is made.
\<close>

theorem self_checks_raises_UnboundLocalError:
  "self_checks example_startup_env example_conf () = (Inl UnboundLocalError, ())"
  by (simp add: self_checks_def Let_def example_startup_env_def bnd_def raise_def ret_def)

section \<open>Properties of the poll loop: exceptions\<close>

lemma check_inbox_other:
  assumes "fetch_and_process C c s = (Inl e, s')" and "\<not> transient e"
  shows "check_inbox C c s = (Inr True, s'\<lparr>events := events s' @ [Logged ERROR]\<rparr>)"
  using assms by (simp add: check_inbox_def try_except_def bnd_def log_def ret_def)

lemma check_inbox_transient:
  assumes "fetch_and_process C c s = (Inl e, s')" and "transient e"
  shows "check_inbox C c s =
    (Inr True, s'\<lparr>events := events s' @ [Logged WARNING, Slept (misc_times_sleep_seconds c)]\<rparr>)"
  using assms by (simp add: check_inbox_def try_except_def bnd_def log_def sleep_def ret_def)

lemma check_inbox_ok:
  assumes "fetch_and_process C c s = (Inr u, s')"
  shows "check_inbox C c s = (Inr True, s')"
  using assms by (simp add: check_inbox_def try_except_def bnd_def ret_def)

lemma check_inbox_returns_True: "fst (check_inbox C c s) = Inr True"
  by (simp add: check_inbox_def try_except_def bnd_def log_def sleep_def ret_def
           split: prod.splits sum.splits)

lemma main_iteration_after_expiry:
  assumes "expire_pending_tips C c s0 = (Inr b, s)" and "check_inbox C c s = (Inr t, s1)"
  shows "main_iteration C c s0 =
     (Continue, s1\<lparr>events := events s1 @ [Slept (misc_times_sleep_seconds c)]\<rparr>)"
  using assms by (simp add: main_iteration_def bnd_def sleep_def)

lemma main_iteration_expiry_raises:
  assumes "expire_pending_tips C c s = (Inl e, s')"
  shows "main_iteration C c s =
     (case (if misc_notify_enabled c then notify C c e else ret ())
             (s'\<lparr>events := events s' @ [Logged ERROR, Logged ERROR]\<rparr>) of
        (Inr u, s'') \<Rightarrow> (Exit 1, s'')
      | (Inl e', s'') \<Rightarrow> (Uncaught e', s''))"
  using assms by (simp add: main_iteration_def bnd_def log_def)

text \<open>
  C1, as the code has it. An exception that is not one of the transient kinds and is
  raised while the inbox is fetched or a message is processed does not leave
  \<open>check_inbox\<close>: it is logged there, \<open>check_inbox\<close> returns \<open>True\<close>, and the pass of
  \<open>main\<close> that called it sleeps and goes on; nothing outside the process is touched
  after the exception, so no notification is sent.
\<close>

theorem check_inbox_swallows_other_exceptions:
  assumes "fetch_and_process C c s = (Inl e, s')" and "\<not> transient e"
  shows "check_inbox C c s = (Inr True, s'\<lparr>events := events s' @ [Logged ERROR]\<rparr>)
     \<and> (\<forall>s0 b. expire_pending_tips C c s0 = (Inr b, s) \<longrightarrow>
           main_iteration C c s0 =
             (Continue, s'\<lparr>events := events s' @ [Logged ERROR, Slept (misc_times_sleep_seconds c)]\<rparr>))"
  using check_inbox_other [OF assms] by (simp add: main_iteration_after_expiry)

text \<open>A database error while the inbox is fetched: \<open>check_inbox\<close> returns \<open>True\<close>.\<close>

theorem check_inbox_swallows_other_exceptions_witness:
  "check_inbox (failing_fetch_env (OtherError ''db'')) example_conf example_world
     = (Inr True, example_world\<lparr>events := [Logged ERROR]\<rparr>)"
proof -
  have f: "fetch_and_process (failing_fetch_env (OtherError ''db'')) example_conf example_world
             = (Inl (OtherError ''db''), example_world)"
    by (simp add: fetch_and_process_def failing_fetch_env_def bnd_def outside_def raise_def)
  have t: "\<not> transient (OtherError ''db'')" by (simp add: transient_def)
  show ?thesis
    using check_inbox_swallows_other_exceptions [OF f t] by (simp add: example_world_def)
qed

text \<open>
  C1, as stated, fails: with a database error raised by the fetch, the pass of \<open>main\<close>
  ends in \<open>Continue\<close>, not in an exit, and no mail has been sent.
\<close>

theorem other_exception_does_not_reach_failed:
  "\<not> transient (OtherError ''db'')
   \<and> fst (fetch_and_process (failing_fetch_env (OtherError ''db'')) example_conf example_world)
       = Inl (OtherError ''db'')
   \<and> fst (main_iteration (failing_fetch_env (OtherError ''db'')) example_conf example_world)
       = Continue
   \<and> mails (ext (snd (main_iteration (failing_fetch_env (OtherError ''db'')) example_conf
        example_world))) = []"
  by code_simp

text \<open>
  C4. A transient error raised while the inbox is fetched or a message is processed is
  caught in \<open>check_inbox\<close>: a warning is logged, the handler sleeps for the configured
  interval, and \<open>check_inbox\<close> returns \<open>True\<close>. The handler changes nothing outside the
  process (the outside world is as the exception left it). The pass of \<open>main\<close> then
  sleeps for the interval once more and the loop goes on with the next pass.
\<close>

theorem check_inbox_transient_sleeps:
  assumes "fetch_and_process C c s = (Inl e, s')" and "transient e"
  shows "check_inbox C c s =
       (Inr True, s'\<lparr>events := events s' @ [Logged WARNING, Slept (misc_times_sleep_seconds c)]\<rparr>)
     \<and> ext (snd (check_inbox C c s)) = ext s'
     \<and> (\<forall>s0 b n. expire_pending_tips C c s0 = (Inr b, s) \<longrightarrow>
           main_iteration C c s0 =
             (Continue, s'\<lparr>events := events s' @ [Logged WARNING,
                Slept (misc_times_sleep_seconds c), Slept (misc_times_sleep_seconds c)]\<rparr>)
         \<and> main (Suc n) C c s0 =
             main n C c (s'\<lparr>events := events s' @ [Logged WARNING,
                Slept (misc_times_sleep_seconds c), Slept (misc_times_sleep_seconds c)]\<rparr>))"
  using check_inbox_transient [OF assms] by (simp add: main_iteration_after_expiry)

text \<open>An HTTP error while the inbox is fetched: a warning, a sleep of 60 seconds, \<open>True\<close>.\<close>

theorem check_inbox_transient_sleeps_witness:
  "check_inbox (failing_fetch_env HTTPError) example_conf example_world
     = (Inr True, example_world\<lparr>events := [Logged WARNING, Slept 60]\<rparr>)"
proof -
  have f: "fetch_and_process (failing_fetch_env HTTPError) example_conf example_world
             = (Inl HTTPError, example_world)"
    by (simp add: fetch_and_process_def failing_fetch_env_def bnd_def outside_def raise_def)
  have t: "transient HTTPError" by (simp add: transient_def)
  show ?thesis
    using check_inbox_transient_sleeps [OF f t] by (simp add: example_world_def example_conf_def)
qed

text \<open>
  C5, as the code has it. An exception raised by the expiry sweep is not swallowed: it
  reaches the handler of \<open>main\<close>, which logs it, sends the notification when that is
  enabled, and exits with status 1 (or the notification raises in turn and that
  exception leaves \<open>main\<close>). The pass does not go on, and neither does the loop.
\<close>

theorem expiry_failure_ends_main:
  assumes "expire_pending_tips C c s = (Inl e, s')"
  shows "main_iteration C c s =
     (case (if misc_notify_enabled c then notify C c e else ret ())
             (s'\<lparr>events := events s' @ [Logged ERROR, Logged ERROR]\<rparr>) of
        (Inr u, s'') \<Rightarrow> (Exit 1, s'')
      | (Inl e', s'') \<Rightarrow> (Uncaught e', s''))
     \<and> fst (main_iteration C c s) \<noteq> Continue
     \<and> (\<forall>n. fst (main (Suc n) C c s) = Some (fst (main_iteration C c s)))"
  using main_iteration_expiry_raises [OF assms]
  by (auto split: prod.splits sum.splits)

text \<open>A database error while the pending tips are listed: the pass does not continue.\<close>

theorem expiry_failure_ends_main_witness:
  "fst (main_iteration (failing_sweep_env (OtherError ''db'')) example_conf example_world)
     \<noteq> Continue"
proof -
  have f: "expire_pending_tips (failing_sweep_env (OtherError ''db'')) example_conf example_world
             = (Inl (OtherError ''db''), example_world)"
    by (simp add: expire_pending_tips_def failing_sweep_env_def example_env_def ledger_env_def
          bnd_def outside_def raise_def example_world_def)
  show ?thesis
    using expiry_failure_ends_main [OF f] by blast
qed

text \<open>
  C5, as stated, fails: with a database error raised by the sweep, the pass of \<open>main\<close>
  exits with status 1, and no message of the inbox has been handled.
\<close>

theorem expiry_failure_not_swallowed:
  "fst (expire_pending_tips (failing_sweep_env (OtherError ''db'')) example_conf example_world)
       = Inl (OtherError ''db'')
   \<and> fst (main_iteration (failing_sweep_env (OtherError ''db'')) example_conf example_world)
       = Exit 1
   \<and> read_log (ext (snd (main_iteration (failing_sweep_env (OtherError ''db'')) example_conf
        example_world))) = []"
  by code_simp

section \<open>Properties of the poll loop: messages\<close>




lemmas ledger_defs = ledger_env_def ledger_exists_def ledger_eval_def ledger_do_def
  ledger_create_def

lemma ledger_step_ok:
  "fst (process_message (ledger_env parse execute banned fmul) c m s) = Inr ()"
  by (simp add: process_message_def ledger_defs bnd_def outside_def ret_def log_def
        split: option.splits)

lemma ledger_step_read_log:
  "read_log (ext (snd (process_message (ledger_env parse execute banned fmul) c m s)))
     = read_log (ext s) @ [msg_id m]"
  by (simp add: process_message_def ledger_defs bnd_def outside_def ret_def log_def
        split: option.splits)




lemma for_each_step:
  assumes "fst (f x s) = Inr ()"
  shows "for_each (x # xs) f s = for_each xs f (snd (f x s))"
  using assms by (cases "f x s") (simp add: bnd_def)

lemma for_each_append:
  "for_each (xs @ ys) f = bnd (for_each xs f) (\<lambda>_. for_each ys f)"
proof (induction xs)
  case Nil
  show ?case by (simp add: bnd_ret)
next
  case (Cons x xs)
  show ?case
    by (rule ext) (simp add: Cons bnd_def split: prod.splits sum.splits)
qed

lemma ledger_for_each_step:
  "for_each (m # ms) (process_message (ledger_env parse execute banned fmul) c) s
     = for_each ms (process_message (ledger_env parse execute banned fmul) c)
         (snd (process_message (ledger_env parse execute banned fmul) c m s))"
  by (rule for_each_step [of "process_message (ledger_env parse execute banned fmul) c" m s])
     (rule ledger_step_ok)

lemma ledger_batch_ok:
  "fst (for_each ms (process_message (ledger_env parse execute banned fmul) c) s) = Inr ()"
proof (induction ms arbitrary: s)
  case Nil
  show ?case by (simp add: ret_def)
next
  case (Cons m ms)
  show ?case
    by (simp only: ledger_for_each_step Cons)
qed



lemma ledger_batch_read_log:
  "read_log (ext (snd (for_each ms (process_message (ledger_env parse execute banned fmul) c) s)))
     = read_log (ext s) @ map msg_id ms"
proof (induction ms arbitrary: s)
  case Nil
  show ?case by (simp add: ret_def)
next
  case (Cons m ms)
  show ?case
    by (simp only: ledger_for_each_step Cons ledger_step_read_log) simp
qed


section \<open>Properties of the poll loop: unmatched messages\<close>

lemma process_message_evaluated:
  assumes "author m = Some name"
    and "check_action C (msg_id m) (ext s) = (Inr False, x1)"
    and "lower name \<noteq> lower (reddit_auth_user c)"
    and "(if reddit_banned_users c then user_banned C name x1 else (Inr False, x1)) = (Inr False, x2)"
    and "(if was_comment m then eval_comment C m x2 else eval_message C m x2) = (Inr action, x3)"
  shows "process_message C c m s =
     bnd (case action of
            Some a \<Rightarrow> outside (action_do C a)
          | None \<Rightarrow>
              if reddit_messages_sorry c \<and> subject m \<notin> set [''post reply'', ''comment reply'']
              then
                bnd (outside (render_didnt_understand C name
                       (if was_comment m then ''comment'' else ''message'') m)) (\<lambda>msg.
                outside (user_tell C name ''What?'' msg
                           (if \<not> was_comment m then Some m else None)))
              else ret ()) (\<lambda>_.
     outside (mark_as_read C m)) (s\<lparr>ext := x3\<rparr>)"
  using assms
  by (auto simp add: process_message_def bnd_def outside_def ret_def split: if_splits)

text \<open>
  C7, as the code has it. For a message that gets past the skips and for which the
  evaluation finds no action, the reply rendered from \<open>didnt-understand.tpl\<close> is sent to
  the author exactly when the option \<open>sorry\<close> of the configuration is set and the subject
  is neither \<open>post reply\<close> nor \<open>comment reply\<close>; the message is then marked as read, as
  it is when no reply is due.
\<close>

theorem unmatched_message_reply:
  assumes "author m = Some name"
    and "check_action C (msg_id m) (ext s) = (Inr False, x1)"
    and "lower name \<noteq> lower (reddit_auth_user c)"
    and "(if reddit_banned_users c then user_banned C name x1 else (Inr False, x1)) = (Inr False, x2)"
    and "(if was_comment m then eval_comment C m x2 else eval_message C m x2) = (Inr None, x3)"
  shows "process_message C c m s =
     (if reddit_messages_sorry c \<and> subject m \<notin> set [''post reply'', ''comment reply'']
      then
        bnd (outside (render_didnt_understand C name
               (if was_comment m then ''comment'' else ''message'') m)) (\<lambda>msg.
        bnd (outside (user_tell C name ''What?'' msg
                        (if \<not> was_comment m then Some m else None))) (\<lambda>_.
        outside (mark_as_read C m)))
      else outside (mark_as_read C m)) (s\<lparr>ext := x3\<rparr>)"
  using process_message_evaluated [OF assms]
  by (simp add: bnd_def ret_def split: prod.splits sum.splits)

text \<open>
  With the option set, the message \<open>hello\<close> of carol gets the reply and is marked.
\<close>

theorem unmatched_message_reply_witness:
  "outbox (ext (snd (process_message example_env example_conf msg_hello example_world)))
     = [(''carol'', ''What?'', ''Sorry carol'')]
   \<and> read_log (ext (snd (process_message example_env example_conf msg_hello example_world)))
     = [''t2'']"
proof -
  have a: "author msg_hello = Some ''carol''" by (simp add: msg_hello_def)
  have b: "check_action example_env (msg_id msg_hello) (ext example_world)
             = (Inr False, example_ledger)"
    by (simp add: example_env_def ledger_env_def ledger_exists_def msg_hello_def
          example_world_def example_ledger_def example_tip_def)
  have c: "lower ''carol'' \<noteq> lower (reddit_auth_user example_conf)"
    by (simp add: example_conf_def lower_def lower_char_def)
  have d: "(if reddit_banned_users example_conf then user_banned example_env ''carol'' example_ledger
            else (Inr False, example_ledger)) = (Inr False, example_ledger)"
    by (simp add: example_env_def ledger_env_def)
  have e: "(if was_comment msg_hello then eval_comment example_env msg_hello example_ledger
            else eval_message example_env msg_hello example_ledger) = (Inr None, example_ledger)"
    by (simp add: example_env_def ledger_env_def ledger_eval_def example_parse_def msg_hello_def)
  show ?thesis
    using unmatched_message_reply [OF a b c d e]
    by (simp add: example_env_def ledger_env_def example_conf_def msg_hello_def bnd_def
          outside_def example_world_def example_ledger_def)
qed

text \<open>
  C7, as stated, fails: with the option \<open>sorry\<close> unset, an unmatched message that is no
  reply to the bot gets no reply; it is only marked as read.
\<close>

theorem reply_not_sent_when_sorry_disabled:
  "example_parse msg_hello = None
   \<and> subject msg_hello \<notin> set [''post reply'', ''comment reply'']
   \<and> outbox (ext (snd (process_message example_env
        (example_conf\<lparr>reddit_messages_sorry := False\<rparr>) msg_hello example_world))) = []
   \<and> read_log (ext (snd (process_message example_env
        (example_conf\<lparr>reddit_messages_sorry := False\<rparr>) msg_hello example_world))) = [''t2'']"
  by code_simp

section \<open>Properties of the poll loop: order and idempotence\<close>

lemma fetch_and_process_fetched:
  assumes "get_unread C (reddit_scan_batch_limit c) (ext s) = (Inr msgs, x)"
  shows "fetch_and_process C c s = for_each (rev msgs) (process_message C c) (s\<lparr>ext := x\<rparr>)"
  using assms by (simp add: fetch_and_process_def bnd_def outside_def)

lemma ledger_fetch_and_process:
  "fetch_and_process (ledger_env parse execute banned fmul) c s =
     for_each (rev (take (reddit_scan_batch_limit c) (inbox (ext s))))
       (process_message (ledger_env parse execute banned fmul) c) s"
proof -
  have "get_unread (ledger_env parse execute banned fmul) (reddit_scan_batch_limit c) (ext s)
          = (Inr (take (reddit_scan_batch_limit c) (inbox (ext s))), ext s)"
    by (simp add: ledger_env_def)
  from fetch_and_process_fetched [OF this] show ?thesis by simp
qed

lemma ledger_check_inbox:
  "check_inbox (ledger_env parse execute banned fmul) c s =
     (Inr True, snd (for_each (rev (take (reddit_scan_batch_limit c) (inbox (ext s))))
                      (process_message (ledger_env parse execute banned fmul) c) s))"
proof -
  let ?run = "for_each (rev (take (reddit_scan_batch_limit c) (inbox (ext s))))
                (process_message (ledger_env parse execute banned fmul) c) s"
  have "fetch_and_process (ledger_env parse execute banned fmul) c s = (Inr (), snd ?run)"
    using ledger_batch_ok [of "rev (take (reddit_scan_batch_limit c) (inbox (ext s)))"
            parse execute banned fmul c s]
    by (simp add: ledger_fetch_and_process prod_eq_iff)
  then show ?thesis by (rule check_inbox_ok)
qed

text \<open>
  C8. \<open>check_inbox\<close> asks for the unread messages with the configured batch limit and
  loops over the reversed result; the loop handles a message only after the loop over
  all messages before it has ended. With the message source of the specification, which
  returns at most \<open>limit\<close> messages, newest first, \<open>check_inbox\<close> returns \<open>True\<close> and
  the messages marked as read are exactly the fetched ones, in reversed (oldest first)
  order, each marked once.
\<close>

theorem check_inbox_oldest_first:
  "(\<forall>(C :: ('a, 'w) ctb_env) s msgs x.
      get_unread C (reddit_scan_batch_limit c) (ext s) = (Inr msgs, x) \<longrightarrow>
      fetch_and_process C c s = for_each (rev msgs) (process_message C c) (s\<lparr>ext := x\<rparr>))
   \<and> (\<forall>(C :: ('a, 'w) ctb_env) ms m.
        for_each (ms @ [m]) (process_message C c)
          = bnd (for_each ms (process_message C c)) (\<lambda>_. process_message C c m))
   \<and> fst (check_inbox (ledger_env parse execute banned fmul) c t) = Inr True
   \<and> read_log (ext (snd (check_inbox (ledger_env parse execute banned fmul) c t)))
       = read_log (ext t) @ map msg_id (rev (take (reddit_scan_batch_limit c) (inbox (ext t))))
   \<and> length (take (reddit_scan_batch_limit c) (inbox (ext t))) \<le> reddit_scan_batch_limit c"
proof (intro conjI allI impI)
  fix C :: "('a, 'w) ctb_env" and s :: "'w world" and msgs x
  assume "get_unread C (reddit_scan_batch_limit c) (ext s) = (Inr msgs, x)"
  then show "fetch_and_process C c s = for_each (rev msgs) (process_message C c) (s\<lparr>ext := x\<rparr>)"
    by (rule fetch_and_process_fetched)
next
  fix C :: "('a, 'w) ctb_env" and ms m
  show "for_each (ms @ [m]) (process_message C c)
          = bnd (for_each ms (process_message C c)) (\<lambda>_. process_message C c m)"
    by (rule ext) (simp add: for_each_append bnd_def ret_def split: prod.splits sum.splits)
next
  show "fst (check_inbox (ledger_env parse execute banned fmul) c t) = Inr True"
    by (rule check_inbox_returns_True)
next
  show "read_log (ext (snd (check_inbox (ledger_env parse execute banned fmul) c t)))
       = read_log (ext t) @ map msg_id (rev (take (reddit_scan_batch_limit c) (inbox (ext t))))"
    by (simp add: ledger_check_inbox ledger_batch_read_log)
next
  show "length (take (reddit_scan_batch_limit c) (inbox (ext t))) \<le> reddit_scan_batch_limit c"
    by simp
qed

text \<open>
  With limit 2 and three unread messages, the two newest are fetched and handled oldest
  first.
\<close>

theorem check_inbox_oldest_first_witness:
  "fetch_and_process example_env example_conf example_world
     = for_each [msg_hello, msg_banned] (process_message example_env example_conf) example_world
   \<and> read_log (ext (snd (check_inbox example_env example_conf example_world))) = [''t2'', ''t3'']"
proof -
  note inst = check_inbox_oldest_first
    [where ?'a = action and ?'w = ledger, where c = example_conf and parse = example_parse
       and execute = example_execute and banned = "[''mallory'']"
       and fmul = example_float_mul and t = example_world]
  have g: "get_unread example_env (reddit_scan_batch_limit example_conf) (ext example_world)
             = (Inr [msg_banned, msg_hello], ext example_world)"
    by (simp add: example_env_def ledger_env_def example_conf_def example_world_def
          example_ledger_def)
  have a: "fetch_and_process example_env example_conf example_world
     = for_each [msg_hello, msg_banned] (process_message example_env example_conf) example_world"
    using inst [THEN conjunct1, rule_format, OF g] by simp
  have b: "read_log (ext (snd (check_inbox example_env example_conf example_world)))
             = [''t2'', ''t3'']"
    using inst [THEN conjunct2, THEN conjunct2, THEN conjunct2, THEN conjunct1]
    by (simp add: example_env_def example_conf_def example_world_def example_ledger_def
          msg_hello_def msg_banned_def)
  from a b show ?thesis by simp
qed




section \<open>Properties of the expiry sweep\<close>

lemma outside_bnd: "outside (bnd p f) = bnd (outside p) (\<lambda>x. outside (f x))"
  by (rule ext) (simp add: outside_def bnd_def split: prod.splits sum.splits)

lemma outside_ret: "outside (ret x) = ret x"
  by (rule ext) (simp add: outside_def ret_def)

lemma outside_for_each: "for_each xs (\<lambda>a. outside (p a)) = outside (for_each xs p)"
  by (induction xs) (simp_all add: outside_ret outside_bnd)

lemma find_by_id:
  assumes "distinct (map a_id xs)" and "a \<in> set xs"
  shows "find (\<lambda>b. a_id b = a_id a) xs = Some a"
  using assms
proof (induction xs)
  case Nil
  then show ?case by simp
next
  case (Cons x xs)
  then show ?case by (cases "x = a") (auto simp add: image_iff)
qed

lemma transition_pending:
  assumes "distinct (map a_id (actions L))" and "a \<in> set (actions L)"
    and "a_state a = ''pending''"
  shows "ledger_transition (a_id a) new_state L =
     (Inr (), L\<lparr>actions :=
        map (\<lambda>b. if a_id b = a_id a then b\<lparr>a_state := new_state\<rparr> else b) (actions L)\<rparr>)"
  using find_by_id [OF assms(1,2)] assms(3) by (simp add: ledger_transition_def)

lemma sweep_list:
  assumes "distinct (map a_id (actions L))" and "distinct (map a_id as)"
    and "\<forall>a \<in> set as. a \<in> set (actions L) \<and> a_state a = ''pending''"
  shows "for_each as (\<lambda>a. ledger_transition (a_id a) ''expired'') L =
     (Inr (), L\<lparr>actions :=
        map (\<lambda>b. if a_id b \<in> a_id ` set as then b\<lparr>a_state := ''expired''\<rparr> else b)
          (actions L)\<rparr>)"
  using assms
proof (induction as arbitrary: L)
  case Nil
  then show ?case by (simp add: ret_def map_idI)
next
  case (Cons a as)
  let ?L1 = "L\<lparr>actions :=
        map (\<lambda>b. if a_id b = a_id a then b\<lparr>a_state := ''expired''\<rparr> else b) (actions L)\<rparr>"
  have step: "ledger_transition (a_id a) ''expired'' L = (Inr (), ?L1)"
    using Cons.prems by (intro transition_pending) auto
  have ids: "map a_id (actions ?L1) = map a_id (actions L)"
    by (simp add: comp_def if_distrib cong: if_cong)
  have d1: "distinct (map a_id (actions ?L1))"
    using Cons.prems(1) by (simp only: ids)
  have d2: "distinct (map a_id as)"
    using Cons.prems(2) by simp
  have mem: "\<forall>b \<in> set as. b \<in> set (actions ?L1) \<and> a_state b = ''pending''"
  proof
    fix b assume b: "b \<in> set as"
    then have "a_id b \<in> a_id ` set as" by (rule imageI)
    then have "a_id b \<noteq> a_id a" using Cons.prems(2) by auto
    moreover have "b \<in> set (actions L)" "a_state b = ''pending''"
      using b Cons.prems(3) by auto
    ultimately show "b \<in> set (actions ?L1) \<and> a_state b = ''pending''"
      by (auto simp add: image_iff intro!: bexI [of _ b])
  qed
  have "for_each (a # as) (\<lambda>a. ledger_transition (a_id a) ''expired'') L
          = for_each as (\<lambda>a. ledger_transition (a_id a) ''expired'') ?L1"
    by (simp add: bnd_def step)
  also have "\<dots> = (Inr (), ?L1\<lparr>actions :=
        map (\<lambda>b. if a_id b \<in> a_id ` set as then b\<lparr>a_state := ''expired''\<rparr> else b)
          (actions ?L1)\<rparr>)"
    by (rule Cons.IH [OF d1 d2 mem])
  also have "\<dots> = (Inr (), L\<lparr>actions :=
        map (\<lambda>b. if a_id b \<in> a_id ` set (a # as) then b\<lparr>a_state := ''expired''\<rparr> else b)
          (actions L)\<rparr>)"
    by (auto simp add: comp_def)
  finally show ?case .
qed

lemma sweep_filter:
  assumes "distinct (map a_id (actions L))"
    and pend: "\<forall>a \<in> set (actions L). P a \<longrightarrow> a_state a = ''pending''"
  shows "for_each (filter P (actions L)) (\<lambda>a. ledger_transition (a_id a) ''expired'') L =
     (Inr (), L\<lparr>actions :=
        map (\<lambda>b. if P b then b\<lparr>a_state := ''expired''\<rparr> else b) (actions L)\<rparr>)"
proof -
  have inj: "inj_on a_id (set (actions L))"
    using assms(1) by (simp add: distinct_map)
  have d: "distinct (map a_id (filter P (actions L)))"
    using assms(1) by (simp add: distinct_map_filter)
  have m: "\<forall>a \<in> set (filter P (actions L)). a \<in> set (actions L) \<and> a_state a = ''pending''"
    using pend by simp
  have eq: "map (\<lambda>b. if a_id b \<in> a_id ` set (filter P (actions L))
                      then b\<lparr>a_state := ''expired''\<rparr> else b) (actions L)
          = map (\<lambda>b. if P b then b\<lparr>a_state := ''expired''\<rparr> else b) (actions L)"
  proof (rule map_cong [OF refl])
    fix b assume b: "b \<in> set (actions L)"
    have "a_id b \<in> a_id ` set (filter P (actions L)) \<longleftrightarrow> P b"
      using b inj by (auto simp add: inj_on_def)
    then show "(if a_id b \<in> a_id ` set (filter P (actions L))
                then b\<lparr>a_state := ''expired''\<rparr> else b)
             = (if P b then b\<lparr>a_state := ''expired''\<rparr> else b)"
      by simp
  qed
  show ?thesis
    by (simp only: sweep_list [OF assms(1) d m] eq)
qed

text \<open>
  C3. On the ledger of the specification, with action ids distinct,
  \<open>expire_pending_tips\<close> leaves every action as it was except those of type \<open>givetip\<close>
  in state \<open>pending\<close> created strictly before the current time minus the configured
  hours in seconds, that is \<open>int(hours * 3600)\<close> as Python computes it (exact for an
  integer entry, the truncated float product for a float entry), which it sets to
  \<open>expired\<close>; balances and everything else are unchanged, no call fails, and the result
  tells whether any action was selected.
\<close>

theorem expire_pending_tips_sweep:
  assumes "distinct (map a_id (actions (ext s)))"
  shows "expire_pending_tips (ledger_env parse execute banned fmul) c s =
     (Inr (filter (\<lambda>a. a_type a = ''givetip'' \<and> a_state a = ''pending''
                     \<and> a_created_at a
                         < clock (ext s)
                           - (case misc_times_expire_pending_hours c of
                                PyInt h \<Rightarrow> h * 3600
                              | PyFloat x \<Rightarrow> py_int (fmul x 3600)))
             (actions (ext s)) \<noteq> []),
      s\<lparr>ext := (ext s)\<lparr>actions :=
           map (\<lambda>a. if a_type a = ''givetip'' \<and> a_state a = ''pending''
                        \<and> a_created_at a
                            < clock (ext s)
                              - (case misc_times_expire_pending_hours c of
                                   PyInt h \<Rightarrow> h * 3600
                                 | PyFloat x \<Rightarrow> py_int (fmul x 3600))
                     then a\<lparr>a_state := ''expired''\<rparr> else a)
             (actions (ext s))\<rparr>\<rparr>)"
proof -
  let ?due = "\<lambda>a. a_type a = ''givetip'' \<and> a_state a = ''pending''
                     \<and> a_created_at a
                         < clock (ext s)
                           - (case misc_times_expire_pending_hours c of
                                PyInt h \<Rightarrow> h * 3600
                              | PyFloat x \<Rightarrow> py_int (fmul x 3600))"
  have sweep: "for_each (filter ?due (actions (ext s)))
                 (\<lambda>a. ledger_transition (a_id a) ''expired'') (ext s) =
     (Inr (), (ext s)\<lparr>actions :=
        map (\<lambda>b. if ?due b then b\<lparr>a_state := ''expired''\<rparr> else b) (actions (ext s))\<rparr>)"
    by (rule sweep_filter [OF assms]) simp
  have loop: "for_each (filter ?due (actions (ext s)))
                 (\<lambda>a. outside (expire (ledger_env parse execute banned fmul) a)) s =
     (Inr (), s\<lparr>ext := (ext s)\<lparr>actions :=
        map (\<lambda>b. if ?due b then b\<lparr>a_state := ''expired''\<rparr> else b) (actions (ext s))\<rparr>\<rparr>)"
    by (simp add: ledger_env_def outside_for_each) (simp add: outside_def sweep)
  have secs: "seconds_of_hours (ledger_env parse execute banned fmul)
                (misc_times_expire_pending_hours c)
              = (case misc_times_expire_pending_hours c of
                   PyInt h \<Rightarrow> h * 3600
                 | PyFloat x \<Rightarrow> py_int (fmul x 3600))"
    by (simp add: seconds_of_hours_def ledger_env_def split: pynum.splits)
  show ?thesis
    using loop
    by (simp add: expire_pending_tips_def Let_def secs bnd_def outside_def ret_def)
       (simp add: ledger_env_def ledger_list_def)
qed

text \<open>
  At time 100000 with 24 hours: of four actions created at 10, 99000, 10 and 10, only
  the first (a pending tip) expires; the recent tip, the completed tip and the pending
  withdrawal stay, and so do the balances. With the float \<open>0.015\<close> for the hours, the
  seconds are 54 (the exact product would truncate to 53): of two pending tips created
  54 and 55 seconds ago, only the older one expires.
\<close>

theorem expire_pending_tips_sweep_witness:
  "map a_state (actions (ext (snd (expire_pending_tips example_env example_conf example_world))))
     = [''expired'', ''pending'', ''completed'', ''pending'']
   \<and> balances (ext (snd (expire_pending_tips example_env example_conf example_world)))
     = [(''alice'', 20), (''bob'', 0)]
   \<and> fst (expire_pending_tips example_env example_conf example_world) = Inr True
   \<and> map a_state (actions (ext (snd (expire_pending_tips example_env
         (example_conf\<lparr>misc_times_expire_pending_hours := PyFloat float_0_015\<rparr>)
         boundary_world))))
     = [''pending'', ''expired'']"
proof -
  have d: "distinct (map a_id (actions (ext example_world)))"
    by (simp add: example_world_def example_ledger_def)
  have d': "distinct (map a_id (actions (ext boundary_world)))"
    by (simp add: boundary_world_def)
  have a: "map a_state (actions (ext (snd (expire_pending_tips example_env example_conf
             example_world)))) = [''expired'', ''pending'', ''completed'', ''pending'']
   \<and> balances (ext (snd (expire_pending_tips example_env example_conf example_world)))
     = [(''alice'', 20), (''bob'', 0)]
   \<and> fst (expire_pending_tips example_env example_conf example_world) = Inr True"
    using expire_pending_tips_sweep [OF d, of example_parse example_execute "[''mallory'']"
            example_float_mul example_conf]
    by (simp add: example_env_def example_world_def example_ledger_def example_conf_def
          example_tip_def)
  have b: "map a_state (actions (ext (snd (expire_pending_tips example_env
         (example_conf\<lparr>misc_times_expire_pending_hours := PyFloat float_0_015\<rparr>)
         boundary_world)))) = [''pending'', ''expired'']"
    using expire_pending_tips_sweep [OF d', of example_parse example_execute "[''mallory'']"
            example_float_mul
            "example_conf\<lparr>misc_times_expire_pending_hours := PyFloat float_0_015\<rparr>"]
    by (simp add: example_env_def boundary_world_def example_ledger_def
          example_tip_def example_float_mul_def py_int_def)
  from a b show ?thesis by simp
qed

end
